theory Spec2Isabelle
  imports Main
begin

section \<open>Values, records and tables\<close>

text \<open>
  The script \<^verbatim>\<open>fetch_todos.py\<close> reads a JSON array of objects, turns it into a pandas
  DataFrame, renames and reorders the columns, derives a status column, writes a CSV
  file and prints a preview. Strings are sequences of bytes, the UTF-8 text that
  reaches the output file. A JSON object is a Python dict: an insertion-ordered list of
  key/value pairs, read with \<open>map_of\<close>. The values covered are the JSON scalars without
  fractional numbers; \<open>PNaN\<close> is the gap pandas puts where a record lacks a key.
\<close>

datatype pyval = PNone | PNaN | PBool bool | PInt int | PStr string

type_synonym pydict = "(string \<times> pyval) list"

datatype error = KeyError string | TypeError

record dataframe =
  nrows :: nat
  cols :: "(string \<times> pyval list) list"

definition label_done :: string where
  "label_done = ''Done '' @ [CHR 0xE2, CHR 0x9C, CHR 0x85]"

definition label_pending :: string where
  "label_pending = ''Pending '' @ [CHR 0xE2, CHR 0x8F, CHR 0xB3]"

definition OUTPUT :: string where
  "OUTPUT = ''todos.csv''"

definition column_order :: "string list" where
  "column_order = [''todo_id'', ''user_id'', ''task'', ''is_completed'', ''status'']"

subsection \<open>The pandas operations that \<open>process_data\<close> calls\<close>

text \<open>\<^verbatim>\<open>pd.DataFrame(data)\<close> on a list of dicts: one row per dict; the columns are the keys
  in order of first appearance; a key a record lacks gives NaN. An empty list gives a
  frame with no rows and no columns.\<close>

fun first_seen :: "string list \<Rightarrow> string list \<Rightarrow> string list" where
  "first_seen acc [] = acc"
| "first_seen acc (k # ks) = first_seen (if k \<in> set acc then acc else acc @ [k]) ks"

definition all_keys :: "pydict list \<Rightarrow> string list" where
  "all_keys data = first_seen [] (concat (map (map fst) data))"

definition cell :: "string \<Rightarrow> pydict \<Rightarrow> pyval" where
  "cell k r = (case map_of r k of None \<Rightarrow> PNaN | Some v \<Rightarrow> v)"

definition DataFrame :: "pydict list \<Rightarrow> dataframe" where
  "DataFrame data =
     \<lparr>nrows = length data, cols = map (\<lambda>k. (k, map (cell k) data)) (all_keys data)\<rparr>"

text \<open>\<^verbatim>\<open>df.rename(columns={...}, inplace=True)\<close>: each column name found in the mapping is
  replaced, the others stay; nothing checks that the new names are distinct.\<close>

definition rename_map :: "string \<Rightarrow> string" where
  "rename_map k =
     (if k = ''userId'' then ''user_id''
      else if k = ''id'' then ''todo_id''
      else if k = ''title'' then ''task''
      else if k = ''completed'' then ''is_completed''
      else k)"

definition rename :: "dataframe \<Rightarrow> dataframe" where
  "rename df = df\<lparr>cols := map (\<lambda>(k, c). (rename_map k, c)) (cols df)\<rparr>"

text \<open>\<^verbatim>\<open>df[name]\<close> followed by \<^verbatim>\<open>.map(...)\<close>: a missing label raises KeyError; a label that
  two columns carry yields a frame, not a series, on which the call of \<^verbatim>\<open>map\<close> with a
  dict raises.\<close>

definition named :: "dataframe \<Rightarrow> string \<Rightarrow> pyval list list" where
  "named df k = map snd (filter (\<lambda>p. fst p = k) (cols df))"

definition getitem :: "dataframe \<Rightarrow> string \<Rightarrow> error + pyval list" where
  "getitem df k =
     (case named df k of
        [] \<Rightarrow> Inl (KeyError k)
      | [c] \<Rightarrow> Inr c
      | _ \<Rightarrow> Inl TypeError)"

text \<open>\<^verbatim>\<open>series.map({True: ..., False: ...})\<close>: the dict becomes an index of the two
  booleans; a series whose cells are all integers or gaps is numeric and is not
  compared with it; otherwise a cell is looked up as Python compares keys, where
  \<open>1 == True\<close> and \<open>0 == False\<close>; a cell that is not found gives NaN.\<close>

definition is_gap :: "pyval \<Rightarrow> bool" where
  "is_gap v = (v = PNone \<or> v = PNaN)"

fun is_int :: "pyval \<Rightarrow> bool" where
  "is_int (PInt n) = True"
| "is_int v = False"

definition numeric :: "pyval list \<Rightarrow> bool" where
  "numeric c = ((\<forall>v \<in> set c. is_int v \<or> is_gap v) \<and> (\<exists>v \<in> set c. is_int v))"

fun lookup_status :: "pyval \<Rightarrow> pyval" where
  "lookup_status (PBool b) = PStr (if b then label_done else label_pending)"
| "lookup_status (PInt n) =
     (if n = 1 then PStr label_done else if n = 0 then PStr label_pending else PNaN)"
| "lookup_status v = PNaN"

definition map_status :: "pyval list \<Rightarrow> pyval list" where
  "map_status c = (if numeric c then map (\<lambda>v. PNaN) c else map lookup_status c)"

text \<open>\<^verbatim>\<open>df[name] = series\<close>: an existing column is replaced where it stands, a new one is
  appended.\<close>

definition setitem :: "dataframe \<Rightarrow> string \<Rightarrow> pyval list \<Rightarrow> dataframe" where
  "setitem df k c =
     (if k \<in> fst ` set (cols df)
      then df\<lparr>cols := map (\<lambda>(k', c'). if k' = k then (k', c) else (k', c')) (cols df)\<rparr>
      else df\<lparr>cols := cols df @ [(k, c)]\<rparr>)"

text \<open>\<^verbatim>\<open>df[[names]]\<close>: KeyError when a name labels no column; otherwise, for each name in
  turn, every column that carries it.\<close>

definition select :: "dataframe \<Rightarrow> string list \<Rightarrow> error + dataframe" where
  "select df ks =
     (case filter (\<lambda>k. k \<notin> fst ` set (cols df)) ks of
        [] \<Rightarrow> Inr (df\<lparr>cols := concat (map (\<lambda>k. filter (\<lambda>p. fst p = k) (cols df)) ks)\<rparr>)
      | k # _ \<Rightarrow> Inl (KeyError k))"

text \<open>\<^verbatim>\<open>series.sum()\<close> skips the gaps and adds the rest as Python does: a boolean counts as
  0 or 1; text cannot be added to a number, nor subtracted from the row count on the
  next line, so a series holding text ends in TypeError. Integers are Python's
  unbounded ones; pandas adds a column of integers in 64 bits, in floating point when
  the column has gaps, which gives the same sum while the values stay below \<open>2 ^ 53\<close>.\<close>

fun addend :: "pyval \<Rightarrow> int" where
  "addend (PBool b) = (if b then 1 else 0)"
| "addend (PInt n) = n"
| "addend v = 0"

fun is_str :: "pyval \<Rightarrow> bool" where
  "is_str (PStr s) = True"
| "is_str v = False"

definition series_sum :: "pyval list \<Rightarrow> error + int" where
  "series_sum c = (if \<exists>v \<in> set c. is_str v then Inl TypeError else Inr (sum_list (map addend c)))"

subsection \<open>Step 2: \<open>process_data\<close>\<close>

record summary =
  total :: int
  completed :: int
  pending :: int

definition process_data :: "pydict list \<Rightarrow> error + (dataframe \<times> summary)" where
  "process_data data =
     (let df = rename (DataFrame data) in
      case getitem df ''is_completed'' of
        Inl e \<Rightarrow> Inl e
      | Inr c \<Rightarrow>
          (let df = setitem df ''status'' (map_status c) in
           case select df column_order of
             Inl e \<Rightarrow> Inl e
           | Inr df \<Rightarrow>
               (let n = int (nrows df) in
                case getitem df ''is_completed'' of
                  Inl e \<Rightarrow> Inl e
                | Inr c \<Rightarrow>
                    (case series_sum c of
                       Inl e \<Rightarrow> Inl e
                     | Inr done \<Rightarrow>
                         Inr (df, \<lparr>total = n, completed = done, pending = n - done\<rparr>)))))"

subsection \<open>Step 3: \<open>save_to_csv\<close>\<close>

text \<open>\<^verbatim>\<open>df.to_csv(filename, index=False)\<close> writes one row of column names and one row per
  table row, through Python's \<open>csv\<close> writer with minimal quoting: a field holding a
  comma, a double quote or a line break is put in double quotes, with each double quote
  doubled. A gap is written as the empty field, a boolean as \<open>True\<close> or \<open>False\<close>, an
  integer in decimal; a column of integers with gaps is held as floating point and its
  integers are written with a trailing \<open>.0\<close> (exact up to \<open>2 ^ 53\<close>). A file is kept
  as the list of rows written; its bytes are these rows, each ended by a line feed.\<close>

fun digits :: "nat \<Rightarrow> string" where
  "digits n =
     (if n < 10 then [''0123456789'' ! n]
      else digits (n div 10) @ [''0123456789'' ! (n mod 10)])"

declare digits.simps [simp del]

definition str_int :: "int \<Rightarrow> string" where
  "str_int i = (if i < 0 then CHR ''-'' # digits (nat (- i)) else digits (nat i))"

definition floats :: "pyval list \<Rightarrow> bool" where
  "floats c = ((\<forall>v \<in> set c. is_int v \<or> is_gap v) \<and> (\<exists>v \<in> set c. is_gap v))"

fun render :: "pyval list \<Rightarrow> pyval \<Rightarrow> string" where
  "render c PNone = []"
| "render c PNaN = []"
| "render c (PBool b) = (if b then ''True'' else ''False'')"
| "render c (PInt n) = str_int n @ (if floats c then ''.0'' else [])"
| "render c (PStr s) = s"

definition special :: "char \<Rightarrow> bool" where
  "special ch = (ch = CHR '','' \<or> ch = CHR 0x22 \<or> ch = CHR 0x0A \<or> ch = CHR 0x0D)"

definition quote_minimal :: "string \<Rightarrow> string" where
  "quote_minimal f =
     (if \<exists>ch \<in> set f. special ch
      then [CHR 0x22] @ concat (map (\<lambda>ch. if ch = CHR 0x22 then [ch, ch] else [ch]) f) @ [CHR 0x22]
      else f)"

fun join :: "string list \<Rightarrow> string" where
  "join [] = []"
| "join [f] = f"
| "join (f # g # gs) = f @ '','' @ join (g # gs)"

definition csv_line :: "string list \<Rightarrow> string" where
  "csv_line flds = join (map quote_minimal flds)"

definition to_csv :: "dataframe \<Rightarrow> string list" where
  "to_csv df =
     csv_line (map fst (cols df)) #
     map (\<lambda>i. csv_line (map (\<lambda>(k, c). render c (c ! i)) (cols df))) [0..<nrows df]"

definition file_bytes :: "string list \<Rightarrow> string" where
  "file_bytes rows = concat (map (\<lambda>l. l @ [CHR 0x0A]) rows)"

subsection \<open>The console, the file system and the network\<close>

text \<open>The console is the list of messages printed so far, one constructor per message of
  the source (a message may take several calls of \<^verbatim>\<open>print\<close>), carrying the values the
  source puts into its text. The
  table printed by \<open>preview\<close> is kept as the frame handed to \<^verbatim>\<open>to_string\<close>.\<close>

datatype line =
    Banner
  | Fetching string "(string \<times> int) list"
  | Received nat
  | ErrConnect
  | ErrTimeout
  | ErrHTTP string nat
  | ErrUnexpected string
  | Processing
  | Total int
  | Completed int
  | Pending int
  | Saved string nat "string list"
  | PreviewTitle int
  | Table dataframe
  | Rule
  | Done

text \<open>What one call of \<^verbatim>\<open>requests.get\<close> can bring back: an exception of the library, with
  its text, or a response with its status code, reason, final URL and body. The body is
  what \<^verbatim>\<open>response.json()\<close> makes of it: an array of objects, or a decoding failure,
  which the library raises as a \<open>RequestException\<close>; a body that is JSON of another
  shape is outside this type. \<open>ConnectTimeout\<close> is both a \<open>ConnectionError\<close> and a
  \<open>Timeout\<close>.\<close>

datatype exc =
    ConnectionError string
  | ConnectTimeout string
  | ReadTimeout string
  | OtherRequestException string

datatype body = Json "pydict list" | NotJson string

datatype reply = Raised exc | Response nat string string body

record world =
  net :: "nat \<Rightarrow> reply"
  requests :: nat
  stdout :: "line list"
  fs :: "string \<rightharpoonup> string list"

definition out :: "line list \<Rightarrow> world \<Rightarrow> world" where
  "out ls w = w\<lparr>stdout := stdout w @ ls\<rparr>"

definition requests_get :: "world \<Rightarrow> reply \<times> world" where
  "requests_get w = (net w (requests w), w\<lparr>requests := Suc (requests w)\<rparr>)"

definition API_URL :: string where
  "API_URL = ''https://jsonplaceholder.typicode.com/todos''"

definition PARAMS :: "(string \<times> int) list" where
  "PARAMS = [(''_limit'', 20)]"

subsection \<open>Step 1: \<open>fetch_todos\<close>\<close>

text \<open>\<^verbatim>\<open>raise_for_status\<close> raises \<open>HTTPError\<close> for the codes 400 to 599, with a text
  that starts with the code. A call ends by returning the data or by \<^verbatim>\<open>sys.exit(1)\<close>.
  The handlers are tried in the order of the source.\<close>

definition http_error_msg :: "nat \<Rightarrow> string \<Rightarrow> string \<Rightarrow> string" where
  "http_error_msg code reason url =
     str_int (int code) @ (if code < 500 then '' Client Error: '' else '' Server Error: '')
       @ reason @ '' for url: '' @ url"

datatype 'a result = Returned 'a | Exit int

definition fetch_todos ::
  "string \<Rightarrow> (string \<times> int) list \<Rightarrow> world \<Rightarrow> (pydict list) result \<times> world" where
  "fetch_todos url params w =
     (let w = out [Fetching url params] w;
          (r, w) = requests_get w
      in case r of
           Response code reason final b \<Rightarrow>
             (if 400 \<le> code \<and> code < 600
              then (Exit 1, out [ErrHTTP (http_error_msg code reason final) code] w)
              else case b of
                     Json data \<Rightarrow> (Returned data, out [Received (length data)] w)
                   | NotJson msg \<Rightarrow> (Exit 1, out [ErrUnexpected msg] w))
         | Raised (ConnectionError msg) \<Rightarrow> (Exit 1, out [ErrConnect] w)
         | Raised (ConnectTimeout msg) \<Rightarrow> (Exit 1, out [ErrConnect] w)
         | Raised (ReadTimeout msg) \<Rightarrow> (Exit 1, out [ErrTimeout] w)
         | Raised (OtherRequestException msg) \<Rightarrow> (Exit 1, out [ErrUnexpected msg] w))"

subsection \<open>Steps 3 and 4 on the world, and \<open>main\<close>\<close>

definition save_to_csv :: "dataframe \<Rightarrow> string \<Rightarrow> world \<Rightarrow> world" where
  "save_to_csv df filename w =
     out [Saved filename (nrows df) (map fst (cols df))]
       (w\<lparr>fs := (fs w)(filename \<mapsto> to_csv df)\<rparr>)"

text \<open>\<^verbatim>\<open>df.head(n)\<close>: the first \<open>n\<close> rows, and for a negative \<open>n\<close> all rows but the last
  \<open>- n\<close>. The frame itself is returned unchanged beside the new world, since Python hands
  the callee the caller's object.\<close>

definition head :: "dataframe \<Rightarrow> int \<Rightarrow> dataframe" where
  "head df n =
     (let m = (if 0 \<le> n then min (nat n) (nrows df) else nrows df - nat (- n))
      in \<lparr>nrows = m, cols = map (\<lambda>(k, c). (k, take m c)) (cols df)\<rparr>)"

definition preview :: "dataframe \<Rightarrow> int \<Rightarrow> world \<Rightarrow> dataframe \<times> world" where
  "preview df n w = (df, out [PreviewTitle n, Table (head df n), Rule] w)"

definition rows :: "dataframe \<Rightarrow> pyval list list" where
  "rows df = map (\<lambda>i. map (\<lambda>(k, c). c ! i) (cols df)) [0..<nrows df]"

text \<open>\<open>main\<close> returns the exit status of the process: 0 at the end of the script, 1 after
  \<^verbatim>\<open>sys.exit(1)\<close> and after an exception nobody catches. The three counters are printed
  by \<open>process_data\<close> once the frame is built.\<close>

definition main :: "world \<Rightarrow> int \<times> world" where
  "main w =
     (let w = out [Banner] w in
      case fetch_todos API_URL PARAMS w of
        (Exit status, w) \<Rightarrow> (status, w)
      | (Returned raw_data, w) \<Rightarrow>
          (let w = out [Processing] w in
           case process_data raw_data of
             Inl e \<Rightarrow> (1, w)
           | Inr (df, s) \<Rightarrow>
               (let w = out [Total (total s), Completed (completed s), Pending (pending s)] w;
                    w = save_to_csv df OUTPUT w;
                    (df, w) = preview df 5 w
                in (0, out [Done] w))))"

subsection \<open>Auxiliary notions for the statements\<close>

text \<open>A frame is well shaped when every column has one cell per row; the frames built
  by \<open>DataFrame\<close> are, and the steps of \<open>process_data\<close> keep them so.\<close>

definition shaped :: "dataframe \<Rightarrow> bool" where
  "shaped df = (\<forall>p \<in> set (cols df). length (snd p) = nrows df)"

definition has_key :: "string \<Rightarrow> pydict list \<Rightarrow> bool" where
  "has_key k data = (\<exists>r \<in> set data. k \<in> fst ` set r)"

text \<open>The record of the scenario in the specification:
  \<^verbatim>\<open>{"userId": 1, "id": 1, "title": "A", "completed": true}\<close>.\<close>

definition todo_A :: pydict where
  "todo_A = [(''userId'', PInt 1), (''id'', PInt 1), (''title'', PStr ''A''), (''completed'', PBool True)]"

definition frame_A :: dataframe where
  "frame_A =
     \<lparr>nrows = 1,
      cols = [(''todo_id'', [PInt 1]), (''user_id'', [PInt 1]), (''task'', [PStr ''A'']),
              (''is_completed'', [PBool True]), (''status'', [PStr label_done])]\<rparr>"

text \<open>Two keys of one list of records collide when \<open>rename\<close> gives them the same column
  name.\<close>

definition collides :: "pydict list \<Rightarrow> bool" where
  "collides data =
     (has_key ''id'' data \<and> has_key ''todo_id'' data \<or>
      has_key ''userId'' data \<and> has_key ''user_id'' data \<or>
      has_key ''title'' data \<and> has_key ''task'' data)"

text \<open>A record that carries both \<open>id\<close> and \<open>todo_id\<close>, and one without \<open>completed\<close>.\<close>

definition todo_clash :: pydict where
  "todo_clash = [(''id'', PInt 1), (''todo_id'', PInt 2), (''userId'', PInt 1),
                 (''title'', PStr ''A''), (''completed'', PBool True)]"

definition frame_clash :: dataframe where
  "frame_clash =
     \<lparr>nrows = 1,
      cols = [(''todo_id'', [PInt 1]), (''todo_id'', [PInt 2]), (''user_id'', [PInt 1]),
              (''task'', [PStr ''A'']), (''is_completed'', [PBool True]),
              (''status'', [PStr label_done])]\<rparr>"


text \<open>A table of two rows, a world in which every request gets the same reply, nothing
  was printed and no file exists, and three replies: a status outside 2xx, 4xx and 5xx
  with a JSON body, a server error, a refused connection, and the empty array.\<close>

definition frame_AB :: dataframe where
  "frame_AB =
     \<lparr>nrows = 2,
      cols = [(''task'', [PStr ''A'', PStr ''B'']), (''is_completed'', [PBool True, PBool False])]\<rparr>"

definition world0 :: "reply \<Rightarrow> world" where
  "world0 r = \<lparr>net = (\<lambda>n. r), requests = 0, stdout = [], fs = Map.empty\<rparr>"



definition reply_empty :: reply where
  "reply_empty = Response 200 ''OK'' API_URL (Json [])"

definition reply_down :: reply where
  "reply_down = Raised (ConnectionError ''Connection refused'')"

section \<open>The transform\<close>

subsection \<open>Facts about the frame operations\<close>

lemma first_seen_set: "set (first_seen acc ks) = set acc \<union> set ks"
  by (induction ks arbitrary: acc) auto

lemma first_seen_distinct: "distinct acc \<Longrightarrow> distinct (first_seen acc ks)"
  by (induction ks arbitrary: acc) auto

lemma all_keys_distinct: "distinct (all_keys data)"
  by (simp add: all_keys_def first_seen_distinct)

lemma shaped_DataFrame: "shaped (DataFrame data)" "nrows (DataFrame data) = length data"
  by (auto simp: shaped_def DataFrame_def)

lemma shaped_rename: "shaped df \<Longrightarrow> shaped (rename df)" "nrows (rename df) = nrows df"
  by (auto simp: shaped_def rename_def)


lemma shaped_setitem: "shaped df \<Longrightarrow> length c = nrows df \<Longrightarrow> shaped (setitem df k c)"
  "nrows (setitem df k c) = nrows df"
  by (auto simp: shaped_def setitem_def split: if_splits)

lemma shaped_select: "shaped df \<Longrightarrow> select df ks = Inr df' \<Longrightarrow> shaped df'"
  "select df ks = Inr df' \<Longrightarrow> nrows df' = nrows df"
  by (fastforce simp: shaped_def select_def split: list.splits)+

lemma getitem_named: "getitem df k = Inr c \<longleftrightarrow> named df k = [c]"
  by (auto simp: getitem_def split: list.splits)

lemma getitem_length: "shaped df \<Longrightarrow> getitem df k = Inr c \<Longrightarrow> length c = nrows df"
proof -
  assume s: "shaped df" and g: "getitem df k = Inr c"
  then have "named df k = [c]" by (simp add: getitem_named)
  then have "c \<in> set (named df k)" by simp
  then have "c \<in> snd ` set (cols df)" by (auto simp: named_def)
  with s show ?thesis by (auto simp: shaped_def)
qed

lemma replace_other:
  "k' \<noteq> k \<Longrightarrow>
   map snd (filter (\<lambda>p. fst p = k') (map (\<lambda>(k'', c'). if k'' = k then (k'', c) else (k'', c')) xs)) =
   map snd (filter (\<lambda>p. fst p = k') xs)"
  by (induction xs) auto

lemma replace_same:
  "map snd (filter (\<lambda>p. fst p = k) (map (\<lambda>(k'', c'). if k'' = k then (k'', c) else (k'', c')) xs)) =
   map (\<lambda>_. c) (filter (\<lambda>p. fst p = k) xs)"
  by (induction xs) (auto split: if_splits)

lemma named_setitem_other: "k' \<noteq> k \<Longrightarrow> named (setitem df k c) k' = named df k'"
  by (simp add: named_def setitem_def replace_other)

lemma filter_fst_empty: "k \<notin> fst ` set xs \<Longrightarrow> filter (\<lambda>p. fst p = k) xs = []"
  by (induction xs) auto

lemma distinct_filter_fst: "distinct (map fst xs) \<Longrightarrow> length (filter (\<lambda>p. fst p = k) xs) \<le> 1"
  by (induction xs) (auto simp: filter_fst_empty)

lemma cols_renamed:
  "cols (rename (DataFrame data)) = map (\<lambda>k. (rename_map k, map (cell k) data)) (all_keys data)"
  by (simp add: rename_def DataFrame_def comp_def)

lemma named_renamed:
  "named (rename (DataFrame data)) k' =
   map (\<lambda>k. map (cell k) data) (filter (\<lambda>k. rename_map k = k') (all_keys data))"
  by (simp add: named_def cols_renamed filter_map comp_def)

lemma rename_map_status: "rename_map k = ''status'' \<longleftrightarrow> k = ''status''"
  by (simp add: rename_map_def)

lemma filter_eq_distinct: "distinct xs \<Longrightarrow> length (filter (\<lambda>k. k = x) xs) \<le> 1"
  by (induction xs) (auto simp: filter_empty_conv)

lemma named_status_le: "length (named (rename (DataFrame data)) ''status'') \<le> 1"
  using filter_eq_distinct[OF all_keys_distinct, of "''status''" data]
  by (simp add: named_renamed rename_map_status)

lemma named_setitem_same:
  "length (named df k) \<le> 1 \<Longrightarrow> named (setitem df k c) k = [c]"
proof (cases "k \<in> fst ` set (cols df)")
  case True
  assume le: "length (named df k) \<le> 1"
  from True have "filter (\<lambda>p. fst p = k) (cols df) \<noteq> []"
    by (auto simp: filter_empty_conv)
  with le have "length (filter (\<lambda>p. fst p = k) (cols df)) = 1"
    by (cases "filter (\<lambda>p. fst p = k) (cols df)") (auto simp: named_def)
  then obtain p where "filter (\<lambda>p. fst p = k) (cols df) = [p]"
    by (auto simp: length_Suc_conv)
  with True show ?thesis
    by (simp add: named_def setitem_def replace_same)
next
  case False
  then show ?thesis
    by (simp add: named_def setitem_def filter_fst_empty)
qed

lemma filter_concat_select:
  "distinct ks \<Longrightarrow> k \<in> set ks \<Longrightarrow>
   filter (\<lambda>p. fst p = k) (concat (map (\<lambda>k'. filter (\<lambda>p. fst p = k') xs) ks)) =
   filter (\<lambda>p. fst p = k) xs"
proof (induction ks)
  case Nil
  then show ?case by simp
next
  case (Cons a ks)
  have other: "k \<notin> set ks \<Longrightarrow>
    filter (\<lambda>p. fst p = k) (concat (map (\<lambda>k'. filter (\<lambda>p. fst p = k') xs) ks)) = []"
    by (auto simp: filter_empty_conv)
  show ?case
  proof (cases "a = k")
    case True
    with Cons.prems have "k \<notin> set ks" by simp
    with True other show ?thesis by simp
  next
    case False
    with Cons.prems have "k \<in> set ks" "distinct ks" by auto
    with Cons.IH False show ?thesis by (auto simp: filter_empty_conv)
  qed
qed

lemma named_select:
  "select df ks = Inr df' \<Longrightarrow> distinct ks \<Longrightarrow> k \<in> set ks \<Longrightarrow> named df' k = named df k"
  by (auto simp: select_def named_def filter_concat_select split: list.splits)

lemma distinct_column_order: "distinct column_order"
  by (simp add: column_order_def)

lemma process_data_Inr:
  assumes "process_data data = Inr (df, s)"
  obtains c where
    "named (rename (DataFrame data)) ''is_completed'' = [c]"
    "select (setitem (rename (DataFrame data)) ''status'' (map_status c)) column_order = Inr df"
    "series_sum c = Inr (completed s)"
    "total s = int (length data)"
    "pending s = total s - completed s"
    "named df ''is_completed'' = [c]"
    "named df ''status'' = [map_status c]"
    "nrows df = length data"
    "length c = length data"
proof -
  let ?df0 = "rename (DataFrame data)"
  from assms obtain c where c: "getitem ?df0 ''is_completed'' = Inr c"
    by (auto simp: process_data_def Let_def split: sum.splits)
  let ?df1 = "setitem ?df0 ''status'' (map_status c)"
  from assms c obtain df' where sel: "select ?df1 column_order = Inr df'"
    by (auto simp: process_data_def Let_def split: sum.splits)
  from assms c sel obtain c' where c': "getitem df' ''is_completed'' = Inr c'"
    by (auto simp: process_data_def Let_def split: sum.splits)
  from assms c sel c' obtain n where n: "series_sum c' = Inr n"
    by (auto simp: process_data_def Let_def split: sum.splits)
  from assms c sel c' n have res: "df = df'" "s = \<lparr>total = int (nrows df'), completed = n, pending = int (nrows df') - n\<rparr>"
    by (auto simp: process_data_def Let_def)
  have n0: "named ?df0 ''is_completed'' = [c]" using c by (simp add: getitem_named)
  have n1: "named ?df1 ''is_completed'' = [c]" using n0 by (simp add: named_setitem_other)
  have "named df' ''is_completed'' = named ?df1 ''is_completed''"
    by (rule named_select[OF sel distinct_column_order]) (simp add: column_order_def)
  with n1 c' have cc: "c' = c" by (simp add: getitem_named)
  have st: "named df' ''status'' = named ?df1 ''status''"
    by (rule named_select[OF sel distinct_column_order]) (simp add: column_order_def)
  have st1: "named ?df1 ''status'' = [map_status c]"
    by (rule named_setitem_same[OF named_status_le])
  have nr: "nrows df' = length data"
    using shaped_select(2)[OF sel] by (simp add: shaped_setitem shaped_rename shaped_DataFrame)
  have lc: "length c = length data"
    using getitem_length[OF _ c] by (simp add: shaped_rename shaped_DataFrame)
  show ?thesis
    by (rule that[of c]) (use n0 sel res cc n st st1 nr lc n1 c' in \<open>auto simp: getitem_named\<close>)
qed

subsection \<open>The claims about \<open>process_data\<close>\<close>

lemmas eval_defs = process_data_def DataFrame_def all_keys_def rename_def rename_map_def
  getitem_def named_def cell_def setitem_def map_status_def numeric_def select_def
  column_order_def series_sum_def is_gap_def

lemma process_data_todo_A:
  "process_data [todo_A] = Inr (frame_A, \<lparr>total = 1, completed = 1, pending = 0\<rparr>)"
  by (simp add: eval_defs todo_A_def frame_A_def)










subsection \<open>Facts about keys, column names and the file written\<close>

lemma set_all_keys: "k \<in> set (all_keys data) \<longleftrightarrow> has_key k data"
  by (auto simp: all_keys_def first_seen_set has_key_def)


lemma filter_pair_le:
  assumes "distinct xs" "\<not> (a \<in> set xs \<and> b \<in> set xs)"
  shows "length (filter (\<lambda>k. k = a \<or> k = b) xs) \<le> 1"
  using assms
proof (induction xs)
  case Nil
  then show ?case by simp
next
  case (Cons x xs)
  show ?case
  proof (cases "x = a \<or> x = b")
    case True
    with Cons.prems have "filter (\<lambda>k. k = a \<or> k = b) xs = []"
      by (auto simp: filter_empty_conv)
    with True show ?thesis by simp
  next
    case False
    with Cons show ?thesis by auto
  qed
qed

lemma rename_map_cases:
  "rename_map k = ''todo_id'' \<longleftrightarrow> k = ''id'' \<or> k = ''todo_id''"
  "rename_map k = ''user_id'' \<longleftrightarrow> k = ''userId'' \<or> k = ''user_id''"
  "rename_map k = ''task'' \<longleftrightarrow> k = ''title'' \<or> k = ''task''"
  "rename_map k = ''is_completed'' \<longleftrightarrow> k = ''completed'' \<or> k = ''is_completed''"
  by (auto simp: rename_map_def)

lemma named_length: "length (named df k) = length (filter (\<lambda>p. fst p = k) (cols df))"
  by (simp add: named_def)

lemma select_names:
  "(\<And>k. k \<in> set ks \<Longrightarrow> length (filter (\<lambda>p. fst p = k) xs) = 1) \<Longrightarrow>
   map fst (concat (map (\<lambda>k. filter (\<lambda>p. fst p = k) xs) ks)) = ks"
proof (induction ks)
  case Nil
  then show ?case by simp
next
  case (Cons k ks)
  from Cons.prems[of k] obtain p where p: "filter (\<lambda>p. fst p = k) xs = [p]"
    by (auto simp: length_Suc_conv)
  then have "p \<in> set (filter (\<lambda>p. fst p = k) xs)" by simp
  then have "fst p = k" by simp
  with p Cons show ?case by simp
qed

lemma select_present:
  "select df ks = Inr df' \<Longrightarrow> k \<in> set ks \<Longrightarrow> filter (\<lambda>p. fst p = k) (cols df) \<noteq> []"
  by (auto simp: select_def filter_empty_conv split: list.splits)

lemma select_cols:
  "select df ks = Inr df' \<Longrightarrow>
   cols df' = concat (map (\<lambda>k. filter (\<lambda>p. fst p = k) (cols df)) ks)"
  by (auto simp: select_def split: list.splits)

lemma process_data_columns:
  assumes ok: "process_data data = Inr (df, s)" and nc: "\<not> collides data"
  shows "map fst (cols df) = column_order"
proof -
  let ?df0 = "rename (DataFrame data)"
  from ok obtain c where c: "named ?df0 ''is_completed'' = [c]"
    and sel: "select (setitem ?df0 ''status'' (map_status c)) column_order = Inr df"
    by (rule process_data_Inr)
  let ?df1 = "setitem ?df0 ''status'' (map_status c)"
  have one: "length (filter (\<lambda>p. fst p = k) (cols ?df1)) = 1" if k: "k \<in> set column_order" for k
  proof -
    have ge: "filter (\<lambda>p. fst p = k) (cols ?df1) \<noteq> []"
      by (rule select_present[OF sel k])
    have le: "length (named ?df1 k) \<le> 1"
    proof (cases "k = ''status''")
      case True
      then show ?thesis by (simp add: named_setitem_same[OF named_status_le])
    next
      case False
      then have eq: "named ?df1 k = named ?df0 k" by (simp add: named_setitem_other)
      from k False consider "k = ''todo_id''" | "k = ''user_id''" | "k = ''task''" | "k = ''is_completed''"
        by (auto simp: column_order_def)
      then show ?thesis
      proof cases
        case 1
        with nc have "\<not> (''id'' \<in> set (all_keys data) \<and> ''todo_id'' \<in> set (all_keys data))"
          by (auto simp: collides_def set_all_keys)
        from filter_pair_le[OF all_keys_distinct this] 1 eq show ?thesis
          by (simp add: named_renamed rename_map_cases)
      next
        case 2
        with nc have "\<not> (''userId'' \<in> set (all_keys data) \<and> ''user_id'' \<in> set (all_keys data))"
          by (auto simp: collides_def set_all_keys)
        from filter_pair_le[OF all_keys_distinct this] 2 eq show ?thesis
          by (simp add: named_renamed rename_map_cases)
      next
        case 3
        with nc have "\<not> (''title'' \<in> set (all_keys data) \<and> ''task'' \<in> set (all_keys data))"
          by (auto simp: collides_def set_all_keys)
        from filter_pair_le[OF all_keys_distinct this] 3 eq show ?thesis
          by (simp add: named_renamed rename_map_cases)
      next
        case 4
        with eq c show ?thesis by simp
      qed
    qed
    from ge le show ?thesis
      by (cases "filter (\<lambda>p. fst p = k) (cols ?df1)") (auto simp: named_length)
  qed
  show ?thesis
    unfolding select_cols[OF sel] by (rule select_names) (rule one)
qed

lemma csv_line_column_order: "csv_line column_order = ''todo_id,user_id,task,is_completed,status''"
  by (simp add: csv_line_def column_order_def quote_minimal_def special_def)





lemma to_csv_frame_A:
  "to_csv frame_A =
     [''todo_id,user_id,task,is_completed,status'',
      ''1,1,A,True,Done '' @ [CHR 0xE2, CHR 0x9C, CHR 0x85]]"
  by (simp add: to_csv_def frame_A_def csv_line_def quote_minimal_def special_def str_int_def
      digits.simps floats_def is_gap_def label_done_def)

lemma not_collides_todo_A: "\<not> collides [todo_A]"
  by (simp add: collides_def has_key_def todo_A_def)

section \<open>Transform, then save\<close>

text \<open>C3, as stated: for the single record of the scenario, transform and save write exactly
  one data row, and that row is \<open>1,1,A,True,Done\<close>. The row written ends with the label
  of the source, \<open>Done\<close> followed by a space and the three bytes of the check-mark emoji.\<close>

theorem scenario_row_counterexample:
  "process_data [todo_A] = Inr (frame_A, \<lparr>total = 1, completed = 1, pending = 0\<rparr>) \<and>
   to_csv frame_A =
     [''todo_id,user_id,task,is_completed,status'',
      ''1,1,A,True,Done '' @ [CHR 0xE2, CHR 0x9C, CHR 0x85]] \<and>
   to_csv frame_A \<noteq> [''todo_id,user_id,task,is_completed,status'', ''1,1,A,True,Done'']"
  by (simp add: process_data_todo_A to_csv_frame_A)

text \<open>C3, amended: for the single record of the scenario, transform and save write the
  header and exactly one data row, and that row is \<open>1,1,A,True,Done\<close> followed by a
  space and the check-mark emoji.\<close>

theorem scenario_row:
  "process_data [todo_A] = Inr (frame_A, \<lparr>total = 1, completed = 1, pending = 0\<rparr>) \<and>
   fs (save_to_csv frame_A OUTPUT w) OUTPUT =
     Some [''todo_id,user_id,task,is_completed,status'',
           ''1,1,A,True,Done '' @ [CHR 0xE2, CHR 0x9C, CHR 0x85]] \<and>
   file_bytes (to_csv frame_A) =
     ''todo_id,user_id,task,is_completed,status'' @ [CHR 0x0A] @
     ''1,1,A,True,Done '' @ [CHR 0xE2, CHR 0x9C, CHR 0x85, CHR 0x0A]"
  by (simp add: process_data_todo_A save_to_csv_def out_def to_csv_frame_A file_bytes_def)



text \<open>C6, as stated: whenever the pipeline succeeds, the header of the file is exactly
  \<open>todo_id,user_id,task,is_completed,status\<close>, whatever the input records. A record that
  carries both \<open>id\<close> and \<open>todo_id\<close> gets two columns named \<open>todo_id\<close> from the renaming,
  the selection keeps both, and the header has six names.\<close>

theorem header_counterexample:
  "process_data [todo_clash] =
     Inr (frame_clash, \<lparr>total = 1, completed = 1, pending = 0\<rparr>) \<and>
   hd (to_csv frame_clash) = ''todo_id,todo_id,user_id,task,is_completed,status'' \<and>
   hd (to_csv frame_clash) \<noteq> ''todo_id,user_id,task,is_completed,status''"
proof -
  have "process_data [todo_clash] =
          Inr (frame_clash, \<lparr>total = 1, completed = 1, pending = 0\<rparr>)"
    by (simp add: eval_defs todo_clash_def frame_clash_def)
  moreover have "hd (to_csv frame_clash) = ''todo_id,todo_id,user_id,task,is_completed,status''"
    by (simp add: to_csv_def frame_clash_def csv_line_def quote_minimal_def special_def)
  ultimately show ?thesis by simp
qed

text \<open>C6, amended: whenever the pipeline succeeds on records in which no key collides with
  another under the renaming (no \<open>todo_id\<close> beside \<open>id\<close>, no \<open>user_id\<close> beside \<open>userId\<close>,
  no \<open>task\<close> beside \<open>title\<close>), the columns of the table are the five names in their fixed
  order and the header of the file is exactly
  \<open>todo_id,user_id,task,is_completed,status\<close>, whatever the order of the keys.\<close>

theorem header_fixed:
  assumes "process_data data = Inr (df, s)" and "\<not> collides data"
  shows "map fst (cols df) = column_order \<and>
         (\<exists>ls. fs (save_to_csv df OUTPUT w) OUTPUT = Some (''todo_id,user_id,task,is_completed,status'' # ls))"
  using process_data_columns[OF assms]
  by (simp add: save_to_csv_def out_def to_csv_def csv_line_column_order)

theorem header_fixed_witness:
  "process_data [todo_A] = Inr (frame_A, \<lparr>total = 1, completed = 1, pending = 0\<rparr>) \<and>
   \<not> collides [todo_A] \<and> map fst (cols frame_A) = column_order \<and>
   hd (to_csv frame_A) = ''todo_id,user_id,task,is_completed,status''"
  using header_fixed[OF process_data_todo_A not_collides_todo_A, of w]
  by (simp add: process_data_todo_A not_collides_todo_A to_csv_frame_A)

section \<open>Records without a usable \<open>completed\<close>\<close>




section \<open>The fetch and the run as a whole\<close>

lemma fetch_unfold:
  "fetch_todos url params w =
     (case net w (requests w) of
        Response code reason final b \<Rightarrow>
          (if 400 \<le> code \<and> code < 600
           then (Exit 1, w\<lparr>requests := Suc (requests w),
                   stdout := stdout w @ [Fetching url params, ErrHTTP (http_error_msg code reason final) code]\<rparr>)
           else case b of
                  Json data \<Rightarrow> (Returned data, w\<lparr>requests := Suc (requests w),
                      stdout := stdout w @ [Fetching url params, Received (length data)]\<rparr>)
                | NotJson msg \<Rightarrow> (Exit 1, w\<lparr>requests := Suc (requests w),
                      stdout := stdout w @ [Fetching url params, ErrUnexpected msg]\<rparr>))
      | Raised e \<Rightarrow>
          (Exit 1, w\<lparr>requests := Suc (requests w),
             stdout := stdout w @ [Fetching url params,
               case e of ConnectionError m \<Rightarrow> ErrConnect | ConnectTimeout m \<Rightarrow> ErrConnect
                 | ReadTimeout m \<Rightarrow> ErrTimeout | OtherRequestException m \<Rightarrow> ErrUnexpected m]\<rparr>))"
  by (cases "net w (requests w)")
     (auto simp: fetch_todos_def requests_get_def out_def Let_def split: exc.splits body.splits)

lemma main_unfold:
  "main w =
     (case fetch_todos API_URL PARAMS (out [Banner] w) of
        (Exit status, w1) \<Rightarrow> (status, w1)
      | (Returned raw_data, w1) \<Rightarrow>
          (case process_data raw_data of
             Inl e \<Rightarrow> (1, out [Processing] w1)
           | Inr (df, s) \<Rightarrow>
               (0, out [Processing, Total (total s), Completed (completed s), Pending (pending s),
                        Saved OUTPUT (nrows df) (map fst (cols df)),
                        PreviewTitle 5, Table (head df 5), Rule, Done]
                     (w1\<lparr>fs := (fs w1)(OUTPUT \<mapsto> to_csv df)\<rparr>))))"
  by (simp add: main_def Let_def save_to_csv_def preview_def out_def
      split: prod.splits result.splits sum.splits)






text \<open>C8: when the fetch fails, the run stops there: the exit status is 1, the world after
  \<open>main\<close> is the world after the fetch, no file is created or changed, and only the
  banner, the fetch line and one error line have been printed. In all, a run either
  exits 0 after the four steps, the file written from the table, or exits 1 with every
  file as it was.\<close>

theorem main_all_or_nothing:
  assumes "main w = (status, w')"
  shows "(fst (fetch_todos API_URL PARAMS (out [Banner] w)) = Exit 1 \<longrightarrow>
           status = 1 \<and> w' = snd (fetch_todos API_URL PARAMS (out [Banner] w)) \<and>
           fs w' = fs w \<and> requests w' = Suc (requests w) \<and>
           (\<exists>l. stdout w' = stdout w @ [Banner, Fetching API_URL PARAMS, l])) \<and>
         (status = 0 \<and>
            (\<exists>data df s. fst (fetch_todos API_URL PARAMS (out [Banner] w)) = Returned data \<and>
               process_data data = Inr (df, s) \<and>
               fs w' = (fs w)(OUTPUT \<mapsto> to_csv df) \<and>
               stdout w' = stdout w @
                 [Banner, Fetching API_URL PARAMS, Received (length data), Processing,
                  Total (total s), Completed (completed s), Pending (pending s),
                  Saved OUTPUT (nrows df) (map fst (cols df)),
                  PreviewTitle 5, Table (head df 5), Rule, Done]) \<or>
          status = 1 \<and> fs w' = fs w)"
  using assms unfolding main_unfold fetch_unfold
  by (auto simp: out_def split: reply.splits exc.splits body.splits sum.splits if_splits)

theorem main_all_or_nothing_witness:
  "fst (fetch_todos API_URL PARAMS (out [Banner] (world0 reply_down))) = Exit 1 \<and>
   fst (main (world0 reply_down)) = 1 \<and>
   fs (snd (main (world0 reply_down))) = fs (world0 reply_down) \<and>
   stdout (snd (main (world0 reply_down))) = [Banner, Fetching API_URL PARAMS, ErrConnect]"
proof -
  have f: "fst (fetch_todos API_URL PARAMS (out [Banner] (world0 reply_down))) = Exit 1"
    by (simp add: fetch_unfold out_def world0_def reply_down_def)
  have m: "main (world0 reply_down) = (fst (main (world0 reply_down)), snd (main (world0 reply_down)))"
    by simp
  from main_all_or_nothing[OF m] f
  have "fst (main (world0 reply_down)) = 1"
    "snd (main (world0 reply_down)) = snd (fetch_todos API_URL PARAMS (out [Banner] (world0 reply_down)))"
    "fs (snd (main (world0 reply_down))) = fs (world0 reply_down)"
    by auto
  with f show ?thesis
    by (simp add: fetch_unfold out_def world0_def reply_down_def)
qed

section \<open>The empty array\<close>

text \<open>C1: on the empty list of records, the transform is expected to return a table with no
  rows and the five columns, and the save a file holding the header only. The frame
  built from an empty list has no columns, so reading the column \<open>is_completed\<close> raises
  KeyError: the run that fetches the empty array exits 1 after the line that announces
  the processing, without printing counters and without writing a file.\<close>

theorem process_data_empty:
  "process_data [] = Inl (KeyError ''is_completed'') \<and>
   fst (main (world0 reply_empty)) = 1 \<and>
   fs (snd (main (world0 reply_empty))) OUTPUT = None \<and>
   stdout (snd (main (world0 reply_empty))) =
     [Banner, Fetching API_URL PARAMS, Received 0, Processing]"
proof -
  have "process_data [] = Inl (KeyError ''is_completed'')"
    by (simp add: process_data_def DataFrame_def all_keys_def rename_def getitem_def named_def)
  then show ?thesis
    by (simp add: main_unfold fetch_unfold out_def world0_def reply_empty_def)
qed

section \<open>The preview\<close>

lemma rows_head:
  assumes "0 \<le> n"
  shows "rows (head df n) = take (min (nat n) (nrows df)) (rows df)"
proof -
  let ?m = "min (nat n) (nrows df)"
  have "rows (head df n) = map (\<lambda>i. map (\<lambda>(k, c). take ?m c ! i) (cols df)) [0..<?m]"
    using assms by (simp add: rows_def head_def Let_def comp_def case_prod_beta)
  also have "\<dots> = map (\<lambda>i. map (\<lambda>(k, c). c ! i) (cols df)) [0..<?m]"
    by (rule map_cong) auto
  also have "\<dots> = take ?m (rows df)"
    by (simp add: rows_def take_map)
  finally show ?thesis .
qed

text \<open>C9, as stated: for every table and every \<open>n\<close>, the preview prints the first
  \<open>min(n, row_count)\<close> rows. The parameter is a Python integer; for \<open>n = - 1\<close> and a
  table of two rows \<open>head\<close> keeps the first row, while \<open>min(n, row_count)\<close> is negative
  and stands for no row at all.\<close>

theorem negative_preview_counterexample:
  "rows (head frame_AB (- 1)) = [[PStr ''A'', PBool True]] \<and>
   take (nat (min (- 1) (int (nrows frame_AB)))) (rows frame_AB) = [] \<and>
   stdout (snd (preview frame_AB (- 1) (world0 reply_down))) =
     [PreviewTitle (- 1),
      Table \<lparr>nrows = 1, cols = [(''task'', [PStr ''A'']), (''is_completed'', [PBool True])]\<rparr>,
      Rule]"
  by (simp add: rows_def head_def frame_AB_def preview_def out_def world0_def)

text \<open>C9, amended: for every table and every \<open>n \<ge> 0\<close>, the preview prints a title, a table
  with the columns of the given one and exactly its first \<open>min(n, row_count)\<close> rows in
  order, and a rule; it raises nothing, changes no file and leaves the table as it was.
  With \<open>n\<close> above the row count all rows are printed, with an empty table none. (\<open>main\<close>
  calls it with the default, 5.)\<close>

theorem preview_first_rows:
  assumes "0 \<le> n" and "preview df n w = (df', w')"
  shows "df' = df \<and> fs w' = fs w \<and>
         (\<exists>t. stdout w' = stdout w @ [PreviewTitle n, Table t, Rule] \<and>
              map fst (cols t) = map fst (cols df) \<and>
              rows t = take (min (nat n) (nrows df)) (rows df))"
proof -
  from assms(2) have "df' = df" "w' = out [PreviewTitle n, Table (head df n), Rule] w"
    by (auto simp: preview_def)
  moreover have "map fst (cols (head df n)) = map fst (cols df)"
    by (simp add: head_def Let_def comp_def case_prod_beta)
  ultimately show ?thesis
    using rows_head[OF assms(1)] by (simp add: out_def)
qed

theorem preview_first_rows_witness:
  "(0::int) \<le> 5 \<and>
   fst (preview frame_AB 5 (world0 reply_down)) = frame_AB \<and>
   stdout (snd (preview frame_AB 5 (world0 reply_down))) =
     [PreviewTitle 5, Table frame_AB, Rule] \<and>
   rows frame_AB = [[PStr ''A'', PBool True], [PStr ''B'', PBool False]]"
proof -
  have n: "(0::int) \<le> 5" by simp
  have p: "preview frame_AB 5 (world0 reply_down) =
      (fst (preview frame_AB 5 (world0 reply_down)), snd (preview frame_AB 5 (world0 reply_down)))"
    by simp
  from preview_first_rows[OF n p]
  have "fst (preview frame_AB 5 (world0 reply_down)) = frame_AB" by blast
  moreover have "head frame_AB 5 = frame_AB"
    by (simp add: head_def frame_AB_def)
  moreover have "rows frame_AB = [[PStr ''A'', PBool True], [PStr ''B'', PBool False]]"
    by (simp add: rows_def frame_AB_def upt_rec)
  ultimately show ?thesis
    by (simp add: preview_def out_def world0_def)
qed

end
